theory Spec2Isabelle
  imports Complex_Main "HOL-Library.Sublist"
begin

section \<open>Data model\<close>

text \<open>
  The population is the pandas frame \<open>data\<close> read from the CSV file; it is modelled as the
  list of its rows, in file order. A row carries the columns the client tab of
  \<open>main.py\<close> reads. Two columns can be empty (NaN) in a row, because the program itself
  leaves them empty: \<open>Exited\<close> (a saved client gets \<open>Exited = None\<close>) and
  \<open>CustomerId\<close> (absent from the frame when the column does not exist). All other
  columns are populated. A float column holds rationals, the values of its doubles. The means
  taken here are quotients of two integer counts, so comparing them with the thresholds
  gives the same answer as in double precision for any table of realistic size; the median
  of a column and the identifiers written to the file are rounded to double precision
  where pandas rounds them.
\<close>

text \<open>
  \<open>ValueError\<close> is raised by \<open>int\<close> of NaN, \<open>IndexError\<close> by \<open>iloc[0]\<close> of an empty
  frame, and \<open>st.stop()\<close> ends the run of the script by raising \<open>StopException\<close>.
\<close>

datatype error = ValueError | IndexError | StopException

record row =
  CustomerId :: "int option"
  CreditScore :: rat
  Geography :: string
  Gender :: string
  Age :: int
  Tenure :: int
  Balance :: rat
  NumOfProducts :: int
  HasCrCard :: int
  IsActiveMember :: int
  EstimatedSalary :: rat
  Complain :: rat
  SatisfactionScore :: rat
  CardType :: string
  PointEarned :: rat
  Exited :: "int option"

text \<open>
  The customer under analysis is held in the local variables \<open>credit_new\<close>,
  \<open>geo_new\<close>, ... of the client tab; the record keeps their names.
\<close>

record profile =
  credit_new :: rat
  geo_new :: string
  gender_new :: string
  age_new :: int
  tenure_new :: int
  balance_new :: rat
  salary_new :: rat
  num_products_new :: int
  has_cr_card_new :: int
  is_active_new :: int
  complain_new :: rat
  satisfaction_new :: rat
  card_type_new :: string
  points_new :: rat

text \<open>
  The texts shown to the user are Russian string literals; each is one constructor here.
  \<open>GeoActiveProducts\<close> is "Geography + IsActiveMember + NumOfProducts", \<open>GeoActive\<close> is
  "Geography + IsActiveMember", \<open>Geo\<close> is "Geography" and \<open>WholeBase\<close> is the
  literal meaning "the whole base".
\<close>

datatype level = GeoActiveProducts | GeoActive | Geo | WholeBase

datatype risk = LowRisk | MediumRisk | HighRisk

datatype factor =
    FromGermany
  | Inactive
  | ManyProducts
  | LowCreditScore
  | Age40Plus
  | LowSatisfaction
  | HasComplaints
  | HighBalance
  | NoFactors

section \<open>Series operations of pandas\<close>

text \<open>
  \<open>Series.mean()\<close> skips NaN entries and is NaN (here \<open>None\<close>) when nothing is left.
\<close>

definition series_mean :: "rat option list \<Rightarrow> rat option" where
  "series_mean xs =
     (let known = List.map_filter id xs
      in if known = [] then None else Some (sum_list known / of_nat (length known)))"

text \<open>The mean of a boolean series counts \<open>True\<close> as 1 and \<open>False\<close> as 0.\<close>

definition bool_series :: "bool list \<Rightarrow> rat option list" where
  "bool_series bs = map (\<lambda>b. Some (if b then 1 else 0)) bs"


text \<open>\<open>Series.max()\<close> skips NaN entries and is NaN when nothing is left.\<close>

definition series_max :: "int option list \<Rightarrow> int option" where
  "series_max xs =
     (case List.map_filter id xs of [] \<Rightarrow> None | v # vs \<Rightarrow> Some (fold max vs v))"

text \<open>Every ordering comparison with NaN is false.\<close>

definition nan_less :: "rat option \<Rightarrow> rat \<Rightarrow> bool" where
  "nan_less x y = (case x of None \<Rightarrow> False | Some v \<Rightarrow> v < y)"


subsection \<open>Double precision\<close>

text \<open>
  A double is NaN, an infinity or a rational. \<open>fl\<close> rounds a rational to the nearest
  double, ties to the even mantissa: 53 binary digits, exponents of the least digit from
  -1074 (subnormal numbers) up, and an infinity from \<open>2 ^ 1024\<close> on.
\<close>

datatype double = NaN | NegInf | Fin rat | PosInf

fun bitlen :: "nat \<Rightarrow> nat" where
  "bitlen n = (if n = 0 then 0 else Suc (bitlen (n div 2)))"

declare bitlen.simps [simp del]

definition pow2 :: "int \<Rightarrow> rat" where
  "pow2 e = (if 0 \<le> e then 2 ^ nat e else 1 / 2 ^ nat (- e))"

text \<open>For \<open>a > 0\<close>, the integer \<open>k\<close> with \<open>2 ^ k \<le> a < 2 ^ (k + 1)\<close>.\<close>

definition ilog2 :: "rat \<Rightarrow> int" where
  "ilog2 a = (if 1 \<le> a then int (bitlen (nat \<lfloor>a\<rfloor>)) - 1
              else - int (bitlen (nat (\<lceil>1 / a\<rceil> - 1))))"

definition round_half_even :: "rat \<Rightarrow> int" where
  "round_half_even x =
     (if x - of_int \<lfloor>x\<rfloor> < 1 / 2 then \<lfloor>x\<rfloor>
      else if 1 / 2 < x - of_int \<lfloor>x\<rfloor> then \<lfloor>x\<rfloor> + 1
      else if even \<lfloor>x\<rfloor> then \<lfloor>x\<rfloor> else \<lfloor>x\<rfloor> + 1)"

definition fl_exponent :: "rat \<Rightarrow> int" where
  "fl_exponent a = max (ilog2 a - 52) (- 1074)"

definition fl_mantissa :: "rat \<Rightarrow> int" where
  "fl_mantissa a = round_half_even (a / pow2 (fl_exponent a))"

definition fl :: "rat \<Rightarrow> double" where
  "fl x =
     (if x = 0 then Fin 0
      else if 1024 < fl_exponent \<bar>x\<bar> + int (bitlen (nat (fl_mantissa \<bar>x\<bar>)))
        then (if 0 < x then PosInf else NegInf)
      else if 0 < x then Fin (of_int (fl_mantissa \<bar>x\<bar>) * pow2 (fl_exponent \<bar>x\<bar>))
      else Fin (- (of_int (fl_mantissa \<bar>x\<bar>) * pow2 (fl_exponent \<bar>x\<bar>))))"

text \<open>
  An integer stored in a float64 column: below 54 binary digits it is kept, otherwise it
  is rounded to 53 digits, ties to even. (No identifier reaches \<open>2 ^ 1024\<close>.)
\<close>

definition float64_of_nat :: "nat \<Rightarrow> nat" where
  "float64_of_nat a =
     (if bitlen a \<le> 53 then a
      else if a mod 2 ^ (bitlen a - 53) < 2 ^ (bitlen a - 54)
        then (a div 2 ^ (bitlen a - 53)) * 2 ^ (bitlen a - 53)
      else if 2 ^ (bitlen a - 54) < a mod 2 ^ (bitlen a - 53)
        then (a div 2 ^ (bitlen a - 53) + 1) * 2 ^ (bitlen a - 53)
      else if even (a div 2 ^ (bitlen a - 53))
        then (a div 2 ^ (bitlen a - 53)) * 2 ^ (bitlen a - 53)
      else (a div 2 ^ (bitlen a - 53) + 1) * 2 ^ (bitlen a - 53))"

definition float64_of_int :: "int \<Rightarrow> int" where
  "float64_of_int n = (if 0 \<le> n then int (float64_of_nat (nat n))
                       else - int (float64_of_nat (nat (- n))))"

subsection \<open>Median\<close>

text \<open>
  \<open>Series.median()\<close> of a float column without NaN: the middle value in sorted order, or,
  for an even count, the mean of the two middle values as numpy takes it: their sum
  rounded to a double, then halved. It is NaN for an empty column.
\<close>

definition median_even :: "rat \<Rightarrow> rat \<Rightarrow> double" where
  "median_even a b = (case fl (a + b) of Fin y \<Rightarrow> fl (y / 2) | d \<Rightarrow> d)"

definition series_median :: "rat list \<Rightarrow> double" where
  "series_median xs =
     (if xs = [] then NaN
      else if odd (length xs) then Fin (sort xs ! (length xs div 2))
      else median_even (sort xs ! (length xs div 2 - 1)) (sort xs ! (length xs div 2)))"

text \<open>\<open>x > d\<close> for a number \<open>x\<close> and a double \<open>d\<close>; false when \<open>d\<close> is NaN.\<close>

definition greater_double :: "rat \<Rightarrow> double \<Rightarrow> bool" where
  "greater_double x d =
     (case d of NaN \<Rightarrow> False | NegInf \<Rightarrow> True | Fin v \<Rightarrow> v < x | PosInf \<Rightarrow> False)"

section \<open>The analysis of one customer\<close>

subsection \<open>Cohort selection\<close>

text \<open>The three boolean masks of lines 613-617, 621-624 and 628.\<close>

definition seg_geo_active_products :: "row list \<Rightarrow> profile \<Rightarrow> row list" where
  "seg_geo_active_products data p =
     filter (\<lambda>r. Geography r = geo_new p \<and> IsActiveMember r = is_active_new p
                 \<and> NumOfProducts r = num_products_new p) data"

definition seg_geo_active :: "row list \<Rightarrow> profile \<Rightarrow> row list" where
  "seg_geo_active data p =
     filter (\<lambda>r. Geography r = geo_new p \<and> IsActiveMember r = is_active_new p) data"

definition seg_geo :: "row list \<Rightarrow> profile \<Rightarrow> row list" where
  "seg_geo data p = filter (\<lambda>r. Geography r = geo_new p) data"

text \<open>
  The pair \<open>(segment, segment_level)\<close> is assigned once and then overwritten by three
  consecutive \<open>if\<close> statements, each testing the length of the current \<open>segment\<close>.
\<close>

definition segment :: "row list \<Rightarrow> profile \<Rightarrow> row list \<times> level" where
  "segment data p =
     (let s0 = (seg_geo_active_products data p, GeoActiveProducts);
          s1 = (if length (fst s0) < 40 then (seg_geo_active data p, GeoActive) else s0);
          s2 = (if length (fst s1) < 40 then (seg_geo data p, Geo) else s1);
          s3 = (if length (fst s2) = 0 then (data, WholeBase) else s2)
      in s3)"

subsection \<open>Churn rate and risk tier\<close>

definition exited_series :: "row list \<Rightarrow> rat option list" where
  "exited_series rs = map (\<lambda>r. map_option rat_of_int (Exited r)) rs"

definition segment_churn :: "row list \<Rightarrow> rat option" where
  "segment_churn seg = series_mean (exited_series seg)"

definition risk_label :: "rat option \<Rightarrow> risk" where
  "risk_label churn =
     (if nan_less churn (15 / 100) then LowRisk
      else if nan_less churn (30 / 100) then MediumRisk
      else HighRisk)"


subsection \<open>Factors\<close>

text \<open>The list starts empty and each \<open>if\<close> appends at most one entry.\<close>

definition factors :: "row list \<Rightarrow> profile \<Rightarrow> factor list" where
  "factors data p =
     (let f0 = [];
          f1 = (if geo_new p = ''Germany'' then f0 @ [FromGermany] else f0);
          f2 = (if is_active_new p = 0 then f1 @ [Inactive] else f1);
          f3 = (if num_products_new p \<ge> 3 then f2 @ [ManyProducts] else f2);
          f4 = (if credit_new p < 600 then f3 @ [LowCreditScore] else f3);
          f5 = (if age_new p \<ge> 40 then f4 @ [Age40Plus] else f4);
          f6 = (if satisfaction_new p < 3 then f5 @ [LowSatisfaction] else f5);
          f7 = (if complain_new p > 0 then f6 @ [HasComplaints] else f6);
          f8 = (if greater_double (balance_new p) (series_median (map Balance data))
                then f7 @ [HighBalance] else f7)
      in if f8 = [] then f8 @ [NoFactors] else f8)"

subsection \<open>Percentiles\<close>

text \<open>\<open>pct = (data[col] <= val).mean()\<close>, for a column of any ordered type.\<close>

definition pct :: "('a::linorder) list \<Rightarrow> 'a \<Rightarrow> rat option" where
  "pct col val = series_mean (bool_series (map (\<lambda>v. v \<le> val) col))"

text \<open>
  One entry per iteration of the loop over the seven columns, in its order. An entry keeps
  the column name and the percentile; the rounding and formatting for display are not part
  of the model.
\<close>

definition percentiles :: "row list \<Rightarrow> profile \<Rightarrow> (string \<times> rat option) list" where
  "percentiles data p =
     [(''CreditScore'', pct (map CreditScore data) (credit_new p)),
      (''Age'', pct (map Age data) (age_new p)),
      (''Balance'', pct (map Balance data) (balance_new p)),
      (''EstimatedSalary'', pct (map EstimatedSalary data) (salary_new p)),
      (''Tenure'', pct (map Tenure data) (tenure_new p)),
      (''Satisfaction Score'', pct (map SatisfactionScore data) (satisfaction_new p)),
      (''Point Earned'', pct (map PointEarned data) (points_new p))]"

subsection \<open>The whole analysis\<close>

record risk_assessment =
  ra_segment_level :: level
  ra_segment :: "row list"
  ra_segment_size :: nat
  ra_segment_churn :: "rat option"
  ra_base_churn :: "rat option"
  ra_risk_label :: risk
  ra_factors :: "factor list"
  ra_percentiles :: "(string \<times> rat option) list"

definition evaluate :: "row list \<Rightarrow> profile \<Rightarrow> risk_assessment" where
  "evaluate data p =
     (let base_churn = series_mean (exited_series data);
          sl = segment data p;
          churn = segment_churn (fst sl)
      in \<lparr>ra_segment_level = snd sl,
          ra_segment = fst sl,
          ra_segment_size = length (fst sl),
          ra_segment_churn = churn,
          ra_base_churn = base_churn,
          ra_risk_label = risk_label churn,
          ra_factors = factors data p,
          ra_percentiles = percentiles data p\<rparr>)"

section \<open>The two modes of the client tab\<close>

subsection \<open>A customer of the table\<close>

text \<open>
  Lines 373-386: the local variables are read from the selected row; \<open>float\<close> and
  \<open>int\<close> leave the values of the typed columns as they are.
\<close>

definition profile_of_row :: "row \<Rightarrow> profile" where
  "profile_of_row r =
     \<lparr>credit_new = CreditScore r,
      geo_new = Geography r,
      gender_new = Gender r,
      age_new = Age r,
      tenure_new = Tenure r,
      balance_new = Balance r,
      salary_new = EstimatedSalary r,
      num_products_new = NumOfProducts r,
      has_cr_card_new = HasCrCard r,
      is_active_new = IsActiveMember r,
      complain_new = Complain r,
      satisfaction_new = SatisfactionScore r,
      card_type_new = CardType r,
      points_new = PointEarned r\<rparr>"

text \<open>
  \<open>data[data["CustomerId"] == selected_customer_id].iloc[0]\<close>: the first row with the
  identifier; \<open>iloc[0]\<close> of an empty frame raises \<open>IndexError\<close>. The mode offers
  the identifiers of the table only, and only when the table has the column.
\<close>

definition select_row :: "row list \<Rightarrow> int \<Rightarrow> error + row" where
  "select_row data selected_customer_id =
     (case filter (\<lambda>r. CustomerId r = Some selected_customer_id) data of
        [] \<Rightarrow> Inl IndexError
      | r # _ \<Rightarrow> Inr r)"

definition analyze_selected :: "row list \<Rightarrow> int \<Rightarrow> error + risk_assessment" where
  "analyze_selected data selected_customer_id =
     (case select_row data selected_customer_id of
        Inl e \<Rightarrow> Inl e
      | Inr r \<Rightarrow> Inr (evaluate data (profile_of_row r)))"

section \<open>The script as a store-passing program\<close>

subsection \<open>Frames in a store\<close>

text \<open>
  A variable of the script holds a reference to a frame. The store maps references to
  frames; \<open>next_free\<close> is the first reference not yet in use. The operations of pandas used
  here read their operands and return a fresh frame: indexing by a mask, \<open>copy\<close>,
  \<open>pd.concat\<close>; the reductions \<open>mean\<close>, \<open>median\<close>, \<open>min\<close>, \<open>max\<close> and the comparisons only read.
  An assignment \<open>segment = data\<close> copies the reference, not the frame. The store also holds
  the content of the CSV file.
\<close>

datatype id_dtype = NoColumn | Int64 | Float64

record csv =
  csv_id_dtype :: id_dtype
  csv_rows :: "row list"

record store =
  heap :: "nat \<Rightarrow> row list"
  next_free :: nat
  disk :: csv

definition alloc :: "row list \<Rightarrow> store \<Rightarrow> store" where
  "alloc rows s = s\<lparr>heap := (heap s)(next_free s := rows), next_free := Suc (next_free s)\<rparr>"

subsection \<open>Sidebar and filters\<close>

text \<open>
  \<open>int(data[col].min())\<close> and \<open>int(data[col].max())\<close>: the minimum of an empty column is
  NaN, and \<open>int\<close> of NaN raises \<open>ValueError\<close>. \<open>int\<close> of a float truncates towards zero.
\<close>

definition int_min_max :: "int list \<Rightarrow> error + int \<times> int" where
  "int_min_max xs = (case xs of [] \<Rightarrow> Inl ValueError | x # ys \<Rightarrow> Inr (fold min ys x, fold max ys x))"

definition py_int :: "rat \<Rightarrow> int" where
  "py_int x = (if 0 \<le> x then \<lfloor>x\<rfloor> else \<lceil>x\<rceil>)"

text \<open>Lines 80-90: the ranges of the two sliders of the sidebar.\<close>

definition sidebar_ranges :: "row list \<Rightarrow> error + (int \<times> int) \<times> (int \<times> int)" where
  "sidebar_ranges data =
     (case int_min_max (map Age data) of
        Inl e \<Rightarrow> Inl e
      | Inr age \<Rightarrow>
          (case int_min_max (map Tenure data) of
             Inl e \<Rightarrow> Inl e
           | Inr tenure \<Rightarrow> Inr (age, tenure)))"

text \<open>
  The choices of the sidebar. The first option of each of the three selectors is the
  literal meaning "all".
\<close>

datatype gender_choice = AllGenders | OnlyGender string

datatype active_choice = AllMembers | OnlyActive | OnlyInactive

datatype exited_choice = AllStatuses | OnlyExited | OnlyRetained

text \<open>\<open>filter_data\<close> of \<open>filters.py\<close>; \<open>between\<close> includes both ends.\<close>

definition filter_data ::
  "row list \<Rightarrow> string list \<Rightarrow> gender_choice \<Rightarrow> int \<times> int \<Rightarrow> int \<times> int \<Rightarrow> active_choice
     \<Rightarrow> exited_choice \<Rightarrow> row list" where
  "filter_data df geography gender age_range tenure_range is_active_filter exited_filter =
     (let filtered = df;
          filtered = (if geography \<noteq> [] then filter (\<lambda>r. Geography r \<in> set geography) filtered
                      else filtered);
          filtered = (case gender of
                        AllGenders \<Rightarrow> filtered
                      | OnlyGender g \<Rightarrow> filter (\<lambda>r. Gender r = g) filtered);
          filtered = filter (\<lambda>r. fst age_range \<le> Age r \<and> Age r \<le> snd age_range) filtered;
          filtered = filter (\<lambda>r. fst tenure_range \<le> Tenure r \<and> Tenure r \<le> snd tenure_range)
                       filtered;
          filtered = (case is_active_filter of
                        AllMembers \<Rightarrow> filtered
                      | OnlyActive \<Rightarrow> filter (\<lambda>r. IsActiveMember r = 1) filtered
                      | OnlyInactive \<Rightarrow> filter (\<lambda>r. IsActiveMember r = 0) filtered);
          filtered = (case exited_filter of
                        AllStatuses \<Rightarrow> filtered
                      | OnlyExited \<Rightarrow> filter (\<lambda>r. Exited r = Some 1) filtered
                      | OnlyRetained \<Rightarrow> filter (\<lambda>r. Exited r = Some 0) filtered)
      in filtered)"

text \<open>
  Lines 337-343 of the client tab: the ranges taken with \<open>int\<close>; the ones taken with
  \<open>float\<close> cannot raise.
\<close>

definition client_ranges ::
  "row list \<Rightarrow> error + (int \<times> int) \<times> (int \<times> int) \<times> (int \<times> int) \<times> (int \<times> int)" where
  "client_ranges data =
     (case int_min_max (map (\<lambda>r. py_int (CreditScore r)) data) of
        Inl e \<Rightarrow> Inl e
      | Inr cs \<Rightarrow>
          (case int_min_max (map Age data) of
             Inl e \<Rightarrow> Inl e
           | Inr age \<Rightarrow>
               (case int_min_max (map Tenure data) of
                  Inl e \<Rightarrow> Inl e
                | Inr ten \<Rightarrow>
                    (case int_min_max (map NumOfProducts data) of
                       Inl e \<Rightarrow> Inl e
                     | Inr products \<Rightarrow> Inr (cs, age, ten, products)))))"

subsection \<open>The analysis on the store\<close>

text \<open>
  Lines 613-633 (and 392-412): \<open>data\<close> is the reference held by the variable \<open>data\<close>. The
  result is the reference held by \<open>segment\<close> at the end, the label, and the store. The last
  assignment \<open>segment = data\<close> makes \<open>segment\<close> an alias of the table.
\<close>

definition choose_segment :: "profile \<Rightarrow> nat \<Rightarrow> store \<Rightarrow> nat \<times> level \<times> store" where
  "choose_segment p data s =
     (let t0 = (next_free s, GeoActiveProducts,
                alloc (seg_geo_active_products (heap s data) p) s);
          t1 = (case t0 of (seg, lvl, s0) \<Rightarrow>
                  if length (heap s0 seg) < 40
                  then (next_free s0, GeoActive, alloc (seg_geo_active (heap s0 data) p) s0)
                  else t0);
          t2 = (case t1 of (seg, lvl, s1) \<Rightarrow>
                  if length (heap s1 seg) < 40
                  then (next_free s1, Geo, alloc (seg_geo (heap s1 data) p) s1)
                  else t1);
          t3 = (case t2 of (seg, lvl, s2) \<Rightarrow>
                  if length (heap s2 seg) = 0 then (data, WholeBase, s2) else t2)
      in t3)"

text \<open>Lines 613-703: the analysis reads the table and the cohort through their references.\<close>

definition analysis :: "profile \<Rightarrow> nat \<Rightarrow> store \<Rightarrow> risk_assessment \<times> store" where
  "analysis p data s =
     (case choose_segment p data s of
        (seg, segment_level, s1) \<Rightarrow>
          (\<lparr>ra_segment_level = segment_level,
            ra_segment = heap s1 seg,
            ra_segment_size = length (heap s1 seg),
            ra_segment_churn = segment_churn (heap s1 seg),
            ra_base_churn = series_mean (exited_series (heap s1 data)),
            ra_risk_label = risk_label (segment_churn (heap s1 seg)),
            ra_factors = factors (heap s1 data) p,
            ra_percentiles = percentiles (heap s1 data) p\<rparr>, s1))"

subsection \<open>Saving a new customer\<close>

text \<open>
  \<open>new_id = int(data["CustomerId"].max()) + 1 if "CustomerId" in data.columns else 1\<close>.
  The first argument is the type of the column \<open>CustomerId\<close> of the table, or that the
  table has no such column. \<open>int\<close> of NaN raises \<open>ValueError\<close>.
\<close>

definition new_id :: "id_dtype \<Rightarrow> row list \<Rightarrow> error + int" where
  "new_id dt data =
     (if dt \<noteq> NoColumn
      then (case series_max (map CustomerId data) of
              None \<Rightarrow> Inl ValueError
            | Some m \<Rightarrow> Inr (m + 1))
      else Inr 1)"

text \<open>The dictionary \<open>client\<close> with the two added keys, as a row of the table.\<close>

definition client_row :: "profile \<Rightarrow> int \<Rightarrow> row" where
  "client_row p n =
     \<lparr>CustomerId = Some n,
      CreditScore = credit_new p,
      Geography = geo_new p,
      Gender = gender_new p,
      Age = age_new p,
      Tenure = tenure_new p,
      Balance = balance_new p,
      NumOfProducts = num_products_new p,
      HasCrCard = has_cr_card_new p,
      IsActiveMember = is_active_new p,
      EstimatedSalary = salary_new p,
      Complain = complain_new p,
      SatisfactionScore = satisfaction_new p,
      CardType = card_type_new p,
      PointEarned = points_new p,
      Exited = None\<rparr>"

text \<open>
  \<open>pd.concat([data, pd.DataFrame([client_row])])\<close>, as far as the column \<open>CustomerId\<close>
  goes. The one-row frame holds the new identifier as int64 up to \<open>2 ^ 63 - 1\<close>, as uint64
  up to \<open>2 ^ 64 - 1\<close> and as a Python object beyond. An int64 column joined with int64
  stays int64; joined with uint64, and a float64 column joined with either, it becomes
  float64, so every identifier is then a double. A float64 column joined with objects
  becomes an object column, which keeps the values. A table without the column gets a
  float64 column that is NaN in the old rows.
\<close>

definition as_float_id :: "row \<Rightarrow> row" where
  "as_float_id r = r\<lparr>CustomerId := map_option float64_of_int (CustomerId r)\<rparr>"

definition pd_concat :: "id_dtype \<Rightarrow> row list \<Rightarrow> profile \<Rightarrow> int \<Rightarrow> csv" where
  "pd_concat dt data p n =
     (if dt = Int64 \<and> n \<le> 9223372036854775807
      then \<lparr>csv_id_dtype = Int64, csv_rows = data @ [client_row p n]\<rparr>
      else if n \<le> 18446744073709551615
      then \<lparr>csv_id_dtype = Float64, csv_rows = map as_float_id (data @ [client_row p n])\<rparr>
      else \<lparr>csv_id_dtype = Float64, csv_rows = data @ [client_row p n]\<rparr>)"

text \<open>
  Lines 729-739: the new frame \<open>updated_data\<close> is written to the file. An exception raised
  while the identifier is computed ends the run before anything is written.
\<close>

definition save_client :: "id_dtype \<Rightarrow> profile \<Rightarrow> nat \<Rightarrow> store \<Rightarrow> (error + int) \<times> store" where
  "save_client dt p data s =
     (case new_id dt (heap s data) of
        Inl e \<Rightarrow> (Inl e, s)
      | Inr n \<Rightarrow>
          (Inr n,
           (alloc (csv_rows (pd_concat dt (heap s data) p n)) s)
             \<lparr>disk := pd_concat dt (heap s data) p n\<rparr>))"

subsection \<open>The client tab and a run of the script\<close>

text \<open>
  What the user does in the client tab: in the first mode a customer is selected and the
  button is pressed or not; in the second the form holds a profile and one of its two
  buttons, or none, was pressed.
\<close>

datatype action =
    SelectedCustomer int bool
  | NewCustomer profile bool bool

text \<open>
  Lines 358-745. The result is the assessment shown, if any. In the first mode the row is
  fetched before the button is tested, and nothing is offered when the table has no
  column \<open>CustomerId\<close>.
\<close>

definition client_tab ::
  "id_dtype \<Rightarrow> action \<Rightarrow> nat \<Rightarrow> store \<Rightarrow> (error + risk_assessment option) \<times> store" where
  "client_tab dt act data s =
     (case act of
        SelectedCustomer selected_customer_id clicked \<Rightarrow>
          if dt = NoColumn then (Inr None, s)
          else (case select_row (heap s data) selected_customer_id of
                  Inl e \<Rightarrow> (Inl e, s)
                | Inr r \<Rightarrow>
                    if clicked
                    then (case analysis (profile_of_row r) data s of
                            (a, s1) \<Rightarrow> (Inr (Some a), s1))
                    else (Inr None, s))
      | NewCustomer p analyze_clicked analyze_and_save_clicked \<Rightarrow>
          if analyze_clicked \<or> analyze_and_save_clicked
          then (case analysis p data s of
                  (a, s1) \<Rightarrow>
                    if analyze_and_save_clicked
                    then (case save_client dt p data s1 of
                            (Inl e, s2) \<Rightarrow> (Inl e, s2)
                          | (Inr n, s2) \<Rightarrow> (Inr (Some a), s2))
                    else (Inr (Some a), s1))
          else (Inr None, s))"

record inputs =
  selected_geography :: "string list"
  selected_gender :: gender_choice
  selected_age_range :: "int \<times> int"
  selected_tenure_range :: "int \<times> int"
  selected_is_active :: active_choice
  selected_exited :: exited_choice
  user_action :: action

text \<open>
  One run of \<open>main.py\<close>, from the content of the file to the result of the client tab and
  the content of the file afterwards: the table is loaded, the sidebar takes its ranges,
  the filtered copy is made and the run stops when it is empty, the client tab takes its
  ranges and serves the user. The tabs that draw charts read the filtered copy only.
\<close>

definition run :: "inputs \<Rightarrow> csv \<Rightarrow> (error + risk_assessment option) \<times> csv" where
  "run inp file =
     (let s0 = alloc (csv_rows file) \<lparr>heap = (\<lambda>a. []), next_free = 0, disk = file\<rparr>
      in case sidebar_ranges (heap s0 0) of
           Inl e \<Rightarrow> (Inl e, disk s0)
         | Inr ranges \<Rightarrow>
             (let s1 = alloc (filter_data (heap s0 0) (selected_geography inp)
                               (selected_gender inp) (selected_age_range inp)
                               (selected_tenure_range inp) (selected_is_active inp)
                               (selected_exited inp)) s0
              in if heap s1 1 = [] then (Inl StopException, disk s1)
                 else (case client_ranges (heap s1 0) of
                         Inl e \<Rightarrow> (Inl e, disk s1)
                       | Inr ranges' \<Rightarrow>
                           (case client_tab (csv_id_dtype file) (user_action inp) 0 s1 of
                              (result, s2) \<Rightarrow> (result, disk s2)))))"

section \<open>Sample data\<close>

definition sample_row :: "int \<Rightarrow> string \<Rightarrow> int \<Rightarrow> int \<Rightarrow> rat \<Rightarrow> int option \<Rightarrow> row" where
  "sample_row cid geo act prods bal ex =
     \<lparr>CustomerId = Some cid,
      CreditScore = 650,
      Geography = geo,
      Gender = ''Male'',
      Age = 35,
      Tenure = 5,
      Balance = bal,
      NumOfProducts = prods,
      HasCrCard = 1,
      IsActiveMember = act,
      EstimatedSalary = 50000,
      Complain = 0,
      SatisfactionScore = 3,
      CardType = ''GOLD'',
      PointEarned = 400,
      Exited = ex\<rparr>"

definition sample_profile :: "string \<Rightarrow> int \<Rightarrow> int \<Rightarrow> profile" where
  "sample_profile geo act prods =
     \<lparr>credit_new = 650,
      geo_new = geo,
      gender_new = ''Male'',
      age_new = 35,
      tenure_new = 5,
      balance_new = 0,
      salary_new = 50000,
      num_products_new = prods,
      has_cr_card_new = 1,
      is_active_new = act,
      complain_new = 0,
      satisfaction_new = 3,
      card_type_new = ''GOLD'',
      points_new = 400\<rparr>"

text \<open>Sidebar choices that keep every row with an age and a tenure from 0 to 200.\<close>

definition sample_inputs :: "action \<Rightarrow> inputs" where
  "sample_inputs act =
     \<lparr>selected_geography = [],
      selected_gender = AllGenders,
      selected_age_range = (0, 200),
      selected_tenure_range = (0, 200),
      selected_is_active = AllMembers,
      selected_exited = AllStatuses,
      user_action = act\<rparr>"

text \<open>
  A table of 40 active and 40 inactive customers of France with two products and five
  inactive customers of Spain with one product.
\<close>

definition sample_table :: "row list" where
  "sample_table =
     replicate 40 (sample_row 1 ''France'' 1 2 0 (Some 0))
     @ replicate 40 (sample_row 2 ''France'' 0 2 0 (Some 1))
     @ replicate 5 (sample_row 3 ''Spain'' 0 1 0 (Some 0))"

section \<open>The specification's wording\<close>

text \<open>
  The fraction of a column that is at most a value, as the specification words the
  percentile.
\<close>

definition fraction_le :: "('a::linorder) list \<Rightarrow> 'a \<Rightarrow> rat" where
  "fraction_le col val = of_nat (length (filter (\<lambda>v. v \<le> val) col)) / of_nat (length col)"

text \<open>
  The median by ranks, without sorting: the value of rank \<open>k\<close> (from 0) is the value of the
  column with at most \<open>k\<close> values below it and more than \<open>k\<close> values at or below it. The
  median is the value of the middle rank, or for an even count the mean, in double
  arithmetic, of the values of the two middle ranks.
\<close>

definition has_rank :: "rat list \<Rightarrow> nat \<Rightarrow> rat \<Rightarrow> bool" where
  "has_rank col k v \<longleftrightarrow>
     length (filter (\<lambda>x. x < v) col) \<le> k \<and> k < length (filter (\<lambda>x. x \<le> v) col)"

definition value_of_rank :: "rat list \<Rightarrow> nat \<Rightarrow> rat option" where
  "value_of_rank col k = List.find (has_rank col k) col"

definition spec_median :: "rat list \<Rightarrow> double" where
  "spec_median col =
     (if col = [] then NaN
      else if odd (length col)
        then (case value_of_rank col (length col div 2) of None \<Rightarrow> NaN | Some m \<Rightarrow> Fin m)
      else (case (value_of_rank col (length col div 2 - 1), value_of_rank col (length col div 2)) of
              (Some lo, Some hi) \<Rightarrow> median_even lo hi
            | _ \<Rightarrow> NaN))"

text \<open>
  The eight checks of the specification as a table, in its order, and the list it asks
  for: the entries whose check holds, or the placeholder when there is none.
\<close>

definition spec_factor_checks :: "row list \<Rightarrow> profile \<Rightarrow> (bool \<times> factor) list" where
  "spec_factor_checks data p =
     [(geo_new p = ''Germany'', FromGermany),
      (is_active_new p = 0, Inactive),
      (3 \<le> num_products_new p, ManyProducts),
      (credit_new p < 600, LowCreditScore),
      (40 \<le> age_new p, Age40Plus),
      (satisfaction_new p < 3, LowSatisfaction),
      (0 < complain_new p, HasComplaints),
      (greater_double (balance_new p) (spec_median (map Balance data)), HighBalance)]"

definition spec_factors :: "row list \<Rightarrow> profile \<Rightarrow> factor list" where
  "spec_factors data p =
     (let applicable = map snd (filter fst (spec_factor_checks data p))
      in if applicable = [] then [NoFactors] else applicable)"

section \<open>Facts about the series operations\<close>

lemma known_exited:
  "List.map_filter id (exited_series seg) = map rat_of_int (List.map_filter Exited seg)"
  by (induction seg) (auto simp: exited_series_def split: option.splits)

lemma known_bool: "List.map_filter id (bool_series bs) = map (\<lambda>b. if b then 1 else 0) bs"
  by (induction bs) (auto simp: bool_series_def)

lemma sum_indicator:
  "sum_list (map (\<lambda>x. if P x then (1::rat) else 0) xs) = of_nat (length (filter P xs))"
  by (induction xs) auto

lemma pct_fraction: "col \<noteq> [] \<Longrightarrow> pct col val = Some (fraction_le col val)"
  by (simp add: pct_def series_mean_def known_bool sum_indicator fraction_le_def comp_def)

lemma fraction_all: "col \<noteq> [] \<Longrightarrow> \<forall>v\<in>set col. v \<le> val \<Longrightarrow> fraction_le col val = 1"
  by (simp add: fraction_le_def)

lemma filter_least:
  "\<forall>v\<in>set col. val \<le> v \<Longrightarrow>
     length (filter (\<lambda>v. v \<le> val) col) = count_list col (val::'a::linorder)"
  by (induction col) (auto dest: antisym)

lemma segment_churn_known:
  "segment_churn seg =
     (if List.map_filter Exited seg = [] then None
      else Some (of_int (sum_list (List.map_filter Exited seg))
                 / of_nat (length (List.map_filter Exited seg))))"
  by (simp add: segment_churn_def series_mean_def known_exited sum_list_of_int)

lemma known_filter:
  "List.map_filter Exited (filter (\<lambda>r. Exited r \<noteq> None) seg) = List.map_filter Exited seg"
  by (induction seg) (auto split: option.splits)

lemma known_append_unknown:
  "Exited r = None \<Longrightarrow> List.map_filter Exited (seg @ [r]) = List.map_filter Exited seg"
  by (induction seg) (auto split: option.splits)

lemma known_length:
  "length (List.map_filter Exited seg) = length (filter (\<lambda>r. Exited r \<noteq> None) seg)"
  by (induction seg) (auto split: option.splits)

lemma known_sum_01:
  "\<forall>r\<in>set seg. Exited r = None \<or> Exited r = Some 0 \<or> Exited r = Some 1 \<Longrightarrow>
   sum_list (List.map_filter Exited seg) = int (length (filter (\<lambda>r. Exited r = Some 1) seg))"
  by (induction seg) (auto split: option.splits)

lemma known_mem: "Some i \<in> set xs \<Longrightarrow> i \<in> set (List.map_filter id xs)"
  by (induction xs) (auto split: option.splits)

lemma series_max_upper:
  assumes "series_max xs = Some m" and "Some i \<in> set xs"
  shows "i \<le> m"
proof -
  have mem: "i \<in> set (List.map_filter id xs)"
    using assms(2) by (rule known_mem)
  then obtain v vs where vs: "List.map_filter id xs = v # vs"
    by (cases "List.map_filter id xs") auto
  with assms(1) have "m = fold max vs v"
    by (simp add: series_max_def)
  moreover have "fold max vs v = Max (set (v # vs))"
    by (rule Max.set_eq_fold [symmetric])
  ultimately have "m = Max (set (v # vs))"
    by simp
  with mem vs show ?thesis
    by simp
qed

lemma series_max_some:
  assumes "Some i \<in> set xs"
  shows "\<exists>m. series_max xs = Some m"
proof -
  have "i \<in> set (List.map_filter id xs)"
    using assms by (rule known_mem)
  then show ?thesis
    by (cases "List.map_filter id xs") (auto simp: series_max_def)
qed

section \<open>Facts about the cohorts\<close>

lemma seg_products_of_active:
  "seg_geo_active_products data p =
     filter (\<lambda>r. NumOfProducts r = num_products_new p) (seg_geo_active data p)"
  by (simp add: seg_geo_active_products_def seg_geo_active_def conj_commute conj_left_commute)

lemma seg_active_of_geo:
  "seg_geo_active data p = filter (\<lambda>r. IsActiveMember r = is_active_new p) (seg_geo data p)"
  by (simp add: seg_geo_active_def seg_geo_def conj_commute)

lemma length_products_le: "length (seg_geo_active_products data p) \<le> length (seg_geo_active data p)"
  by (simp add: seg_products_of_active)

lemma length_active_le: "length (seg_geo_active data p) \<le> length (seg_geo data p)"
  by (simp add: seg_active_of_geo)

lemma length_geo_le: "length (seg_geo data p) \<le> length data"
  by (simp add: seg_geo_def)

lemma segment_cases:
  "segment data p =
     (if 40 \<le> length (seg_geo_active_products data p)
        then (seg_geo_active_products data p, GeoActiveProducts)
      else if 40 \<le> length (seg_geo_active data p)
        then (seg_geo_active data p, GeoActive)
      else if seg_geo data p \<noteq> []
        then (seg_geo data p, Geo)
      else (data, WholeBase))"
  by (simp add: segment_def Let_def not_le)

lemma whole_base_iff: "snd (segment data p) = WholeBase \<longleftrightarrow> seg_geo data p = []"
  using length_products_le [of data p] length_active_le [of data p]
  by (auto simp add: segment_cases)

lemma select_row_mem:
  assumes "select_row data cid = Inr r"
  shows "r \<in> set data \<and> CustomerId r = Some cid"
proof -
  from assms obtain rs where "filter (\<lambda>r. CustomerId r = Some cid) data = r # rs"
    by (auto simp: select_row_def split: list.splits)
  then have "r \<in> set (filter (\<lambda>r. CustomerId r = Some cid) data)"
    by simp
  then show ?thesis
    by simp
qed

lemma own_row_in_cohort:
  "r \<in> set data \<Longrightarrow> r \<in> set (seg_geo_active_products data (profile_of_row r))"
  by (simp add: seg_geo_active_products_def profile_of_row_def)


section \<open>Facts about rounding\<close>

lemma bitlen_0 [simp]: "bitlen 0 = 0"
  by (simp add: bitlen.simps)

lemma bitlen_Suc_0 [simp]: "bitlen (Suc 0) = Suc 0"
  by (subst bitlen.simps) simp

lemma bitlen_numeral [simp]: "bitlen (numeral k) = Suc (bitlen (numeral k div 2))"
  by (simp add: bitlen.simps [of "numeral k"])

lemma floor_numeral_divide [simp]: "\<lfloor>numeral a / numeral b :: rat\<rfloor> = numeral a div numeral b"
  using floor_divide_of_int_eq [of "numeral a" "numeral b", where ?'a = rat] by simp

lemma ceiling_numeral_divide [simp]:
  "\<lceil>numeral a / numeral b :: rat\<rceil> = - ((- numeral a) div numeral b)"
  using floor_divide_of_int_eq [of "- numeral a" "numeral b", where ?'a = rat]
  by (simp add: ceiling_def)

lemmas fl_eval = fl_def fl_exponent_def fl_mantissa_def ilog2_def pow2_def round_half_even_def
  median_even_def

lemma bitlen_le: "n < 2 ^ k \<Longrightarrow> bitlen n \<le> k"
proof (induction k arbitrary: n)
  case 0
  then show ?case by simp
next
  case (Suc k)
  show ?case
  proof (cases "n = 0")
    case True
    then show ?thesis by simp
  next
    case False
    from Suc.prems have "n div 2 < 2 ^ k"
      by simp
    then have "bitlen (n div 2) \<le> k"
      by (rule Suc.IH)
    with False show ?thesis
      by (subst bitlen.simps) simp
  qed
qed

lemma float64_of_int_small: "\<bar>n\<bar> < 2 ^ 53 \<Longrightarrow> float64_of_int n = n"
proof -
  assume a: "\<bar>n\<bar> < 2 ^ 53"
  have "nat \<bar>n\<bar> < 2 ^ 53"
    using a by (simp add: nat_less_iff)
  then have b: "bitlen (nat \<bar>n\<bar>) \<le> 53"
    by (rule bitlen_le)
  show ?thesis
  proof (cases "0 \<le> n")
    case True
    with b show ?thesis
      by (simp add: float64_of_int_def float64_of_nat_def)
  next
    case False
    then have "nat \<bar>n\<bar> = nat (- n)"
      by simp
    with b False show ?thesis
      by (simp add: float64_of_int_def float64_of_nat_def)
  qed
qed

lemma float64_of_int_2_53: "float64_of_int 9007199254740992 = 9007199254740992"
  by (simp add: float64_of_int_def float64_of_nat_def)

lemma float64_of_int_le: "- (2 ^ 53) < n \<Longrightarrow> n \<le> 2 ^ 53 \<Longrightarrow> float64_of_int n = n"
proof -
  assume lo: "- (2 ^ 53) < n" and hi: "n \<le> 2 ^ 53"
  show ?thesis
  proof (cases "n = 2 ^ 53")
    case True
    then show ?thesis
      using float64_of_int_2_53 by simp
  next
    case False
    with lo hi have "\<bar>n\<bar> < 2 ^ 53"
      by simp
    then show ?thesis
      by (rule float64_of_int_small)
  qed
qed

section \<open>Facts about the median\<close>

lemma length_filter_mono:
  "(\<And>x. P x \<Longrightarrow> Q x) \<Longrightarrow> length (filter P xs) \<le> length (filter Q xs)"
  by (induction xs) auto

lemma has_rank_unique:
  assumes "has_rank col k v" and "has_rank col k w"
  shows "v = w"
proof (rule ccontr)
  assume "v \<noteq> w"
  then consider "v < w" | "w < v"
    by (auto simp: neq_iff)
  then show False
  proof cases
    case 1
    then have "length (filter (\<lambda>x. x \<le> v) col) \<le> length (filter (\<lambda>x. x < w) col)"
      by (intro length_filter_mono) simp
    with assms show False
      by (simp add: has_rank_def)
  next
    case 2
    then have "length (filter (\<lambda>x. x \<le> w) col) \<le> length (filter (\<lambda>x. x < v) col)"
      by (intro length_filter_mono) simp
    with assms show False
      by (simp add: has_rank_def)
  qed
qed

lemma length_filter_sort: "length (filter P (sort xs)) = length (filter P xs)"
  by (simp add: filter_sort)

lemma sorted_below_rank:
  assumes "sorted s" and "k < length s"
  shows "length (filter (\<lambda>x. x < s ! k) s) \<le> k"
proof -
  have "\<forall>x\<in>set (drop k s). \<not> x < s ! k"
  proof
    fix x
    assume "x \<in> set (drop k s)"
    then obtain i where i: "i < length (drop k s)" "x = drop k s ! i"
      by (auto simp: in_set_conv_nth)
    then have "x = s ! (k + i)" and "k + i < length s"
      by simp_all
    with assms(1) have "s ! k \<le> x"
      by (simp add: sorted_nth_mono)
    then show "\<not> x < s ! k"
      by simp
  qed
  then have "filter (\<lambda>x. x < s ! k) (drop k s) = []"
    by (simp add: filter_empty_conv)
  moreover have "filter (\<lambda>x. x < s ! k) s
      = filter (\<lambda>x. x < s ! k) (take k s) @ filter (\<lambda>x. x < s ! k) (drop k s)"
    by (metis append_take_drop_id filter_append)
  ultimately have "length (filter (\<lambda>x. x < s ! k) s) = length (filter (\<lambda>x. x < s ! k) (take k s))"
    by simp
  also have "\<dots> \<le> length (take k s)"
    by (rule length_filter_le)
  also have "\<dots> \<le> k"
    by simp
  finally show ?thesis .
qed

lemma sorted_upto_rank:
  assumes "sorted s" and "k < length s"
  shows "k < length (filter (\<lambda>x. x \<le> s ! k) s)"
proof -
  have "\<forall>x\<in>set (take (Suc k) s). x \<le> s ! k"
  proof
    fix x
    assume "x \<in> set (take (Suc k) s)"
    then obtain i where i: "i < length (take (Suc k) s)" "x = take (Suc k) s ! i"
      by (auto simp: in_set_conv_nth)
    then have "x = s ! i" and "i \<le> k"
      by simp_all
    with assms show "x \<le> s ! k"
      by (simp add: sorted_nth_mono)
  qed
  then have "filter (\<lambda>x. x \<le> s ! k) (take (Suc k) s) = take (Suc k) s"
    by (simp add: filter_id_conv)
  moreover have "filter (\<lambda>x. x \<le> s ! k) s
      = filter (\<lambda>x. x \<le> s ! k) (take (Suc k) s) @ filter (\<lambda>x. x \<le> s ! k) (drop (Suc k) s)"
    by (metis append_take_drop_id filter_append)
  ultimately have "length (take (Suc k) s) \<le> length (filter (\<lambda>x. x \<le> s ! k) s)"
    by simp
  with assms(2) show ?thesis
    by simp
qed

lemma has_rank_sort:
  assumes "k < length col"
  shows "has_rank col k (sort col ! k)"
proof -
  have "length (filter (\<lambda>x. x < sort col ! k) (sort col)) \<le> k"
    using assms by (intro sorted_below_rank) simp_all
  moreover have "k < length (filter (\<lambda>x. x \<le> sort col ! k) (sort col))"
    using assms by (intro sorted_upto_rank) simp_all
  ultimately show ?thesis
    by (simp add: has_rank_def length_filter_sort)
qed

lemma value_of_rank_sort:
  assumes "k < length col"
  shows "value_of_rank col k = Some (sort col ! k)"
proof (cases "value_of_rank col k")
  case None
  have "sort col ! k \<in> set (sort col)"
    using assms by (intro nth_mem) simp
  then have "sort col ! k \<in> set col"
    by simp
  with None has_rank_sort [OF assms] show ?thesis
    by (auto simp: value_of_rank_def find_None_iff)
next
  case (Some v)
  then have "has_rank col k v"
    by (auto simp: value_of_rank_def find_Some_iff)
  then have "v = sort col ! k"
    using has_rank_sort [OF assms] by (rule has_rank_unique)
  with Some show ?thesis
    by simp
qed

lemma series_median_by_rank: "series_median col = spec_median col"
proof (cases "col = []")
  case True
  then show ?thesis
    by (simp add: series_median_def spec_median_def)
next
  case False
  then have pos: "0 < length col"
    by simp
  then have mid: "length col div 2 < length col"
    by simp
  show ?thesis
  proof (cases "odd (length col)")
    case True
    with False show ?thesis
      by (simp add: series_median_def spec_median_def value_of_rank_sort [OF mid])
  next
    case even: False
    have low: "length col div 2 - Suc 0 < length col"
      by (rule le_less_trans [OF diff_le_self mid])
    from False even show ?thesis
      by (simp add: series_median_def spec_median_def value_of_rank_sort [OF mid]
            value_of_rank_sort [OF low])
  qed
qed

section \<open>Facts about the store\<close>

lemma heap_alloc_old: "a < next_free s \<Longrightarrow> heap (alloc rows s) a = heap s a"
  by (simp add: alloc_def)

lemma heap_alloc_new: "heap (alloc rows s) (next_free s) = rows"
  by (simp add: alloc_def)

lemma next_free_alloc: "next_free (alloc rows s) = Suc (next_free s)"
  by (simp add: alloc_def)

lemma disk_alloc: "disk (alloc rows s) = disk s"
  by (simp add: alloc_def)

lemma choose_segment_frame:
  assumes "data < next_free s"
  shows "heap (snd (snd (choose_segment p data s))) (fst (choose_segment p data s))
           = fst (segment (heap s data) p)
       \<and> fst (snd (choose_segment p data s)) = snd (segment (heap s data) p)
       \<and> (\<forall>a<next_free s. heap (snd (snd (choose_segment p data s))) a = heap s a)
       \<and> disk (snd (snd (choose_segment p data s))) = disk s
       \<and> next_free s \<le> next_free (snd (snd (choose_segment p data s)))
       \<and> (fst (snd (choose_segment p data s)) = WholeBase
            \<longrightarrow> fst (choose_segment p data s) = data)"
  using assms
  by (auto simp: choose_segment_def segment_def Let_def alloc_def)

lemma analysis_frame:
  assumes "data < next_free s"
  shows "fst (analysis p data s) = evaluate (heap s data) p
       \<and> (\<forall>a<next_free s. heap (snd (analysis p data s)) a = heap s a)
       \<and> disk (snd (analysis p data s)) = disk s
       \<and> next_free s \<le> next_free (snd (analysis p data s))"
  using choose_segment_frame [OF assms, of p] assms
  by (simp add: analysis_def evaluate_def Let_def split_def)

lemma int_min_max_nonempty: "xs \<noteq> [] \<Longrightarrow> \<exists>r. int_min_max xs = Inr r"
  by (cases xs) (simp_all add: int_min_max_def)

lemma sidebar_ranges_nonempty: "data \<noteq> [] \<Longrightarrow> \<exists>r. sidebar_ranges data = Inr r"
  using int_min_max_nonempty [of "map Age data"] int_min_max_nonempty [of "map Tenure data"]
  by (auto simp: sidebar_ranges_def)

lemma client_ranges_nonempty: "data \<noteq> [] \<Longrightarrow> \<exists>r. client_ranges data = Inr r"
  using int_min_max_nonempty [of "map Age data"] int_min_max_nonempty [of "map Tenure data"]
    int_min_max_nonempty [of "map NumOfProducts data"]
    int_min_max_nonempty [of "map (\<lambda>r. py_int (CreditScore r)) data"]
  by (auto simp: client_ranges_def)

lemma filter_data_subset: "set (filter_data df g ge ar tr ia ex) \<subseteq> set df"
  by (auto simp: filter_data_def Let_def split: gender_choice.splits active_choice.splits
        exited_choice.splits if_splits)

section \<open>Cohort selection\<close>

text \<open>
  Claim C1. The cohort and its label follow the ordered chain: the rows whose region,
  activity flag and product count equal the customer's when there are at least 40 of
  them; otherwise the rows whose region and activity flag equal the customer's when there
  are at least 40; otherwise the rows of the customer's region when there is at least one
  (1 to 39 rows are accepted); otherwise the whole table. The whole table is chosen
  exactly when no row has the customer's region.
\<close>

theorem segment_fallback_chain:
  "(ra_segment (evaluate data p), ra_segment_level (evaluate data p)) =
     (if 40 \<le> length (filter (\<lambda>r. Geography r = geo_new p \<and> IsActiveMember r = is_active_new p
                                   \<and> NumOfProducts r = num_products_new p) data)
        then (filter (\<lambda>r. Geography r = geo_new p \<and> IsActiveMember r = is_active_new p
                          \<and> NumOfProducts r = num_products_new p) data, GeoActiveProducts)
      else if 40 \<le> length (filter (\<lambda>r. Geography r = geo_new p
                                        \<and> IsActiveMember r = is_active_new p) data)
        then (filter (\<lambda>r. Geography r = geo_new p \<and> IsActiveMember r = is_active_new p) data,
              GeoActive)
      else if filter (\<lambda>r. Geography r = geo_new p) data \<noteq> []
        then (filter (\<lambda>r. Geography r = geo_new p) data, Geo)
      else (data, WholeBase))
   \<and> (ra_segment_level (evaluate data p) = WholeBase
        \<longleftrightarrow> (\<forall>r\<in>set data. Geography r \<noteq> geo_new p))
   \<and> ra_segment_size (evaluate data p) = length (ra_segment (evaluate data p))"
proof -
  have seg: "ra_segment (evaluate data p) = fst (segment data p)"
    by (simp add: evaluate_def Let_def)
  have lvl: "ra_segment_level (evaluate data p) = snd (segment data p)"
    by (simp add: evaluate_def Let_def)
  have c1: "(ra_segment (evaluate data p), ra_segment_level (evaluate data p)) =
     (if 40 \<le> length (filter (\<lambda>r. Geography r = geo_new p \<and> IsActiveMember r = is_active_new p
                                   \<and> NumOfProducts r = num_products_new p) data)
        then (filter (\<lambda>r. Geography r = geo_new p \<and> IsActiveMember r = is_active_new p
                          \<and> NumOfProducts r = num_products_new p) data, GeoActiveProducts)
      else if 40 \<le> length (filter (\<lambda>r. Geography r = geo_new p
                                        \<and> IsActiveMember r = is_active_new p) data)
        then (filter (\<lambda>r. Geography r = geo_new p \<and> IsActiveMember r = is_active_new p) data,
              GeoActive)
      else if filter (\<lambda>r. Geography r = geo_new p) data \<noteq> []
        then (filter (\<lambda>r. Geography r = geo_new p) data, Geo)
      else (data, WholeBase))"
    unfolding seg lvl prod.collapse
    using segment_cases [of data p]
    unfolding seg_geo_active_products_def seg_geo_active_def seg_geo_def .
  have c2: "ra_segment_level (evaluate data p) = WholeBase
        \<longleftrightarrow> (\<forall>r\<in>set data. Geography r \<noteq> geo_new p)"
    unfolding lvl whole_base_iff seg_geo_def by (simp add: filter_empty_conv)
  have c3: "ra_segment_size (evaluate data p) = length (ra_segment (evaluate data p))"
    by (simp add: evaluate_def Let_def)
  show ?thesis
    by (intro conjI c1 c2 c3)
qed

theorem segment_fallback_chain_witness:
  "(ra_segment (evaluate sample_table (sample_profile ''France'' 1 2)),
    ra_segment_level (evaluate sample_table (sample_profile ''France'' 1 2)))
     = (replicate 40 (sample_row 1 ''France'' 1 2 0 (Some 0)), GeoActiveProducts)
   \<and> (ra_segment (evaluate sample_table (sample_profile ''France'' 1 3)),
      ra_segment_level (evaluate sample_table (sample_profile ''France'' 1 3)))
     = (replicate 40 (sample_row 1 ''France'' 1 2 0 (Some 0)), GeoActive)
   \<and> (ra_segment (evaluate sample_table (sample_profile ''Spain'' 1 1)),
      ra_segment_level (evaluate sample_table (sample_profile ''Spain'' 1 1)))
     = (replicate 5 (sample_row 3 ''Spain'' 0 1 0 (Some 0)), Geo)
   \<and> (ra_segment (evaluate sample_table (sample_profile ''Germany'' 1 2)),
      ra_segment_level (evaluate sample_table (sample_profile ''Germany'' 1 2)))
     = (sample_table, WholeBase)"
  using
    segment_fallback_chain [of sample_table "sample_profile ''France'' 1 2"]
    segment_fallback_chain [of sample_table "sample_profile ''France'' 1 3"]
    segment_fallback_chain [of sample_table "sample_profile ''Spain'' 1 1"]
    segment_fallback_chain [of sample_table "sample_profile ''Germany'' 1 2"]
  by (simp add: sample_table_def sample_row_def sample_profile_def)

text \<open>
  Claim C5. Each cohort of the chain is contained, rows in order, in the next one, and the
  sizes do not decrease from region+activity+products to region+activity, to region, to
  the whole table.
\<close>

theorem monotonic_fallback:
  "subseq (seg_geo_active_products data p) (seg_geo_active data p)
   \<and> subseq (seg_geo_active data p) (seg_geo data p)
   \<and> subseq (seg_geo data p) data
   \<and> set (seg_geo_active_products data p) \<subseteq> set (seg_geo_active data p)
   \<and> set (seg_geo_active data p) \<subseteq> set (seg_geo data p)
   \<and> set (seg_geo data p) \<subseteq> set data
   \<and> length (seg_geo_active_products data p) \<le> length (seg_geo_active data p)
   \<and> length (seg_geo_active data p) \<le> length (seg_geo data p)
   \<and> length (seg_geo data p) \<le> length data"
proof -
  have s1: "subseq (seg_geo_active_products data p) (seg_geo_active data p)"
    unfolding seg_products_of_active [of data p] by (rule subseq_filter_left)
  have s2: "subseq (seg_geo_active data p) (seg_geo data p)"
    unfolding seg_active_of_geo [of data p] by (rule subseq_filter_left)
  have s3: "subseq (seg_geo data p) data"
    unfolding seg_geo_def by (rule subseq_filter_left)
  have m1: "set (seg_geo_active_products data p) \<subseteq> set (seg_geo_active data p)"
    unfolding seg_products_of_active [of data p] by (rule filter_is_subset)
  have m2: "set (seg_geo_active data p) \<subseteq> set (seg_geo data p)"
    unfolding seg_active_of_geo [of data p] by (rule filter_is_subset)
  have m3: "set (seg_geo data p) \<subseteq> set data"
    unfolding seg_geo_def by (rule filter_is_subset)
  show ?thesis
    using s1 s2 s3 m1 m2 m3 length_products_le [of data p] length_active_le [of data p]
      length_geo_le [of data p]
    by blast
qed

text \<open>
  Claim C10. In the first mode the customer is a row of the table, so the most specific
  cohort already contains that row: every cohort of the chain is non-empty and the branch
  that falls back to the whole table is never taken.
\<close>

theorem existing_customer_cohort_nonempty:
  assumes "select_row data selected_customer_id = Inr r"
  shows "r \<in> set (seg_geo_active_products data (profile_of_row r))
    \<and> seg_geo_active_products data (profile_of_row r) \<noteq> []
    \<and> seg_geo_active data (profile_of_row r) \<noteq> []
    \<and> seg_geo data (profile_of_row r) \<noteq> []
    \<and> analyze_selected data selected_customer_id = Inr (evaluate data (profile_of_row r))
    \<and> ra_segment_level (evaluate data (profile_of_row r)) \<noteq> WholeBase
    \<and> r \<in> set (ra_segment (evaluate data (profile_of_row r)))"
proof -
  let ?p = "profile_of_row r"
  have mem: "r \<in> set data"
    using select_row_mem [OF assms] by simp
  have m1: "r \<in> set (seg_geo_active_products data ?p)"
    using mem by (rule own_row_in_cohort)
  have m2: "r \<in> set (seg_geo_active data ?p)"
    using m1 unfolding seg_products_of_active [of data ?p] by simp
  have m3: "r \<in> set (seg_geo data ?p)"
    using m2 unfolding seg_active_of_geo [of data ?p] by simp
  have n1: "seg_geo_active_products data ?p \<noteq> []"
    using m1 by auto
  have n2: "seg_geo_active data ?p \<noteq> []"
    using m2 by auto
  have n3: "seg_geo data ?p \<noteq> []"
    using m3 by auto
  have run: "analyze_selected data selected_customer_id = Inr (evaluate data ?p)"
    using assms by (simp add: analyze_selected_def)
  have lvl: "ra_segment_level (evaluate data ?p) = snd (segment data ?p)"
    by (simp add: evaluate_def Let_def)
  have seg: "ra_segment (evaluate data ?p) = fst (segment data ?p)"
    by (simp add: evaluate_def Let_def)
  have nw: "ra_segment_level (evaluate data ?p) \<noteq> WholeBase"
    unfolding lvl whole_base_iff by (rule n3)
  have fin: "r \<in> set (ra_segment (evaluate data ?p))"
    unfolding seg using m1 m2 m3 mem by (simp add: segment_cases)
  show ?thesis
    by (intro conjI m1 n1 n2 n3 run nw fin)
qed

theorem existing_customer_cohort_nonempty_witness:
  "select_row [sample_row 1 ''France'' 1 2 0 (Some 0), sample_row 2 ''Spain'' 0 1 5 (Some 1)] 2
     = Inr (sample_row 2 ''Spain'' 0 1 5 (Some 1))
   \<and> ra_segment_level
        (evaluate [sample_row 1 ''France'' 1 2 0 (Some 0), sample_row 2 ''Spain'' 0 1 5 (Some 1)]
           (profile_of_row (sample_row 2 ''Spain'' 0 1 5 (Some 1)))) \<noteq> WholeBase"
proof -
  have sel: "select_row
      [sample_row 1 ''France'' 1 2 0 (Some 0), sample_row 2 ''Spain'' 0 1 5 (Some 1)] 2
      = Inr (sample_row 2 ''Spain'' 0 1 5 (Some 1))"
    by (simp add: select_row_def sample_row_def)
  show ?thesis
    using sel existing_customer_cohort_nonempty [OF sel] by simp
qed


section \<open>Churn rate and risk tier\<close>

text \<open>
  Claim C2. The tier is determined by the churn rate of the selected cohort alone: a rate
  below 0.15 is low risk, a rate from 0.15 up to but excluding 0.30 is medium risk, a
  rate of 0.30 or more is high risk; exactly 0.15 is medium and exactly 0.30 is high.
\<close>

theorem risk_tier_thresholds:
  "(r < 15 / 100 \<longrightarrow> risk_label (Some r) = LowRisk)
   \<and> (15 / 100 \<le> r \<and> r < 30 / 100 \<longrightarrow> risk_label (Some r) = MediumRisk)
   \<and> (30 / 100 \<le> r \<longrightarrow> risk_label (Some r) = HighRisk)
   \<and> risk_label (Some (15 / 100)) = MediumRisk
   \<and> risk_label (Some (30 / 100)) = HighRisk
   \<and> ra_risk_label (evaluate data p) = risk_label (ra_segment_churn (evaluate data p))"
  by (simp add: risk_label_def nan_less_def evaluate_def Let_def)

theorem risk_tier_thresholds_witness:
  "(1 / 10 < (15 / 100 :: rat) \<and> risk_label (Some (1 / 10)) = LowRisk)
   \<and> ((15 / 100 :: rat) \<le> 1 / 5 \<and> (1 / 5 :: rat) < 30 / 100
        \<and> risk_label (Some (1 / 5)) = MediumRisk)
   \<and> ((30 / 100 :: rat) \<le> 1 / 2 \<and> risk_label (Some (1 / 2)) = HighRisk)"
  using risk_tier_thresholds [of "1 / 10" "[]" "sample_profile ''France'' 1 2"]
    risk_tier_thresholds [of "1 / 5" "[]" "sample_profile ''France'' 1 2"]
    risk_tier_thresholds [of "1 / 2" "[]" "sample_profile ''France'' 1 2"]
  by simp

text \<open>
  Claim C6. The churn rate of a cohort is the mean of the outcome label over the rows whose
  label is known: the sum of the known labels over their number. Rows without a label do
  not enter it, neither as 0 nor as 1: removing them, or appending one, leaves the rate
  unchanged. With 0/1 labels it is the number of known rows that left over the number of
  known rows.
\<close>

theorem churn_rate_known_labels:
  "segment_churn seg =
     (if List.map_filter Exited seg = [] then None
      else Some (of_int (sum_list (List.map_filter Exited seg))
                 / of_nat (length (List.map_filter Exited seg))))
   \<and> segment_churn (filter (\<lambda>r. Exited r \<noteq> None) seg) = segment_churn seg
   \<and> (Exited x = None \<longrightarrow> segment_churn (seg @ [x]) = segment_churn seg)
   \<and> ((\<forall>r\<in>set seg. Exited r = None \<or> Exited r = Some 0 \<or> Exited r = Some 1)
        \<and> (\<exists>r\<in>set seg. Exited r \<noteq> None)
      \<longrightarrow> segment_churn seg =
            Some (of_nat (length (filter (\<lambda>r. Exited r = Some 1) seg))
                  / of_nat (length (filter (\<lambda>r. Exited r \<noteq> None) seg))))
   \<and> ra_segment_churn (evaluate data p) = segment_churn (ra_segment (evaluate data p))"
proof -
  have c1: "segment_churn seg =
     (if List.map_filter Exited seg = [] then None
      else Some (of_int (sum_list (List.map_filter Exited seg))
                 / of_nat (length (List.map_filter Exited seg))))"
    by (rule segment_churn_known)
  have c2: "segment_churn (filter (\<lambda>r. Exited r \<noteq> None) seg) = segment_churn seg"
    by (simp only: segment_churn_known known_filter)
  have c3: "Exited x = None \<longrightarrow> segment_churn (seg @ [x]) = segment_churn seg"
    by (simp add: segment_churn_known known_append_unknown)
  have c4: "(\<forall>r\<in>set seg. Exited r = None \<or> Exited r = Some 0 \<or> Exited r = Some 1)
        \<and> (\<exists>r\<in>set seg. Exited r \<noteq> None)
      \<longrightarrow> segment_churn seg =
            Some (of_nat (length (filter (\<lambda>r. Exited r = Some 1) seg))
                  / of_nat (length (filter (\<lambda>r. Exited r \<noteq> None) seg)))"
  proof
    assume a: "(\<forall>r\<in>set seg. Exited r = None \<or> Exited r = Some 0 \<or> Exited r = Some 1)
        \<and> (\<exists>r\<in>set seg. Exited r \<noteq> None)"
    then have "filter (\<lambda>r. Exited r \<noteq> None) seg \<noteq> []"
      by (auto simp: filter_empty_conv)
    then have ne: "List.map_filter Exited seg \<noteq> []"
      using known_length [of seg] by auto
    have sm: "sum_list (List.map_filter Exited seg)
        = int (length (filter (\<lambda>r. Exited r = Some 1) seg))"
      using a by (intro known_sum_01) simp
    show "segment_churn seg =
            Some (of_nat (length (filter (\<lambda>r. Exited r = Some 1) seg))
                  / of_nat (length (filter (\<lambda>r. Exited r \<noteq> None) seg)))"
      using ne by (simp add: segment_churn_known sm known_length)
  qed
  have c5: "ra_segment_churn (evaluate data p) = segment_churn (ra_segment (evaluate data p))"
    by (simp add: evaluate_def Let_def)
  show ?thesis
    by (intro conjI c1 c2 c3 c4 c5)
qed

theorem churn_rate_known_labels_witness:
  "segment_churn [sample_row 1 ''France'' 1 2 0 (Some 1), sample_row 2 ''France'' 1 2 0 None,
                  sample_row 3 ''France'' 1 2 0 (Some 0), sample_row 4 ''France'' 1 2 0 None]
     = Some (1 / 2)
   \<and> segment_churn ([sample_row 1 ''France'' 1 2 0 (Some 1)] @ [sample_row 2 ''France'' 1 2 0 None])
     = segment_churn [sample_row 1 ''France'' 1 2 0 (Some 1)]"
  using churn_rate_known_labels
    [of "[sample_row 1 ''France'' 1 2 0 (Some 1), sample_row 2 ''France'' 1 2 0 None,
          sample_row 3 ''France'' 1 2 0 (Some 0), sample_row 4 ''France'' 1 2 0 None]"
        "sample_row 2 ''France'' 1 2 0 None" "[]" "sample_profile ''France'' 1 2"]
    churn_rate_known_labels
    [of "[sample_row 1 ''France'' 1 2 0 (Some 1)]"
        "sample_row 2 ''France'' 1 2 0 None" "[]" "sample_profile ''France'' 1 2"]
  by (simp add: sample_row_def)


section \<open>Percentiles\<close>

text \<open>
  Claim C4. For each of the seven columns the percentile of the customer's value is the
  fraction of all rows of the table whose value is at most the customer's. A value equal
  to the maximum of a column has percentile 1, and a value that is the least of a column
  and occurs once in it has percentile 1 over the number of rows.
\<close>

theorem percentile_is_fraction_at_most:
  "(data \<noteq> [] \<longrightarrow>
      percentiles data p =
        [(''CreditScore'', Some (fraction_le (map CreditScore data) (credit_new p))),
         (''Age'', Some (fraction_le (map Age data) (age_new p))),
         (''Balance'', Some (fraction_le (map Balance data) (balance_new p))),
         (''EstimatedSalary'', Some (fraction_le (map EstimatedSalary data) (salary_new p))),
         (''Tenure'', Some (fraction_le (map Tenure data) (tenure_new p))),
         (''Satisfaction Score'',
            Some (fraction_le (map SatisfactionScore data) (satisfaction_new p))),
         (''Point Earned'', Some (fraction_le (map PointEarned data) (points_new p)))])
   \<and> ra_percentiles (evaluate data p) = percentiles data p
   \<and> (col \<noteq> [] \<longrightarrow> pct col val = Some (fraction_le col val))
   \<and> (col \<noteq> [] \<and> val = Max (set col) \<longrightarrow> pct col val = Some 1)
   \<and> (count_list col val = 1 \<and> (\<forall>v\<in>set col. val \<le> v)
        \<longrightarrow> pct col val = Some (1 / of_nat (length col)))"
proof -
  have c1: "data \<noteq> [] \<longrightarrow>
      percentiles data p =
        [(''CreditScore'', Some (fraction_le (map CreditScore data) (credit_new p))),
         (''Age'', Some (fraction_le (map Age data) (age_new p))),
         (''Balance'', Some (fraction_le (map Balance data) (balance_new p))),
         (''EstimatedSalary'', Some (fraction_le (map EstimatedSalary data) (salary_new p))),
         (''Tenure'', Some (fraction_le (map Tenure data) (tenure_new p))),
         (''Satisfaction Score'',
            Some (fraction_le (map SatisfactionScore data) (satisfaction_new p))),
         (''Point Earned'', Some (fraction_le (map PointEarned data) (points_new p)))]"
    by (simp add: percentiles_def pct_fraction)
  have c2: "ra_percentiles (evaluate data p) = percentiles data p"
    by (simp add: evaluate_def Let_def)
  have c3: "col \<noteq> [] \<longrightarrow> pct col val = Some (fraction_le col val)"
    by (simp add: pct_fraction)
  have c4: "col \<noteq> [] \<and> val = Max (set col) \<longrightarrow> pct col val = Some 1"
  proof
    assume a: "col \<noteq> [] \<and> val = Max (set col)"
    then have "\<forall>v\<in>set col. v \<le> val"
      by simp
    with a have "fraction_le col val = 1"
      by (intro fraction_all) simp_all
    with a show "pct col val = Some 1"
      by (simp add: pct_fraction)
  qed
  have c5: "count_list col val = 1 \<and> (\<forall>v\<in>set col. val \<le> v)
        \<longrightarrow> pct col val = Some (1 / of_nat (length col))"
  proof
    assume a: "count_list col val = 1 \<and> (\<forall>v\<in>set col. val \<le> v)"
    then have ne: "col \<noteq> []"
      by auto
    from a have "length (filter (\<lambda>v. v \<le> val) col) = 1"
      using filter_least [of col val] by simp
    then have "fraction_le col val = 1 / of_nat (length col)"
      by (simp add: fraction_le_def)
    with ne show "pct col val = Some (1 / of_nat (length col))"
      by (simp add: pct_fraction)
  qed
  show ?thesis
    by (intro conjI c1 c2 c3 c4 c5)
qed

theorem percentile_is_fraction_at_most_witness:
  "pct [10, 20, 20, 30 :: int] 30 = Some 1
   \<and> pct [10, 20, 20, 30 :: int] 10 = Some (1 / 4)
   \<and> pct [10, 20, 20, 30 :: int] 20 = Some (3 / 4)
   \<and> percentiles [sample_row 1 ''France'' 1 2 0 (Some 0), sample_row 2 ''Spain'' 0 1 5 (Some 1)]
        (sample_profile ''France'' 1 2)
      = [(''CreditScore'', Some 1), (''Age'', Some 1), (''Balance'', Some (1 / 2)),
         (''EstimatedSalary'', Some 1), (''Tenure'', Some 1), (''Satisfaction Score'', Some 1),
         (''Point Earned'', Some 1)]"
  using
    percentile_is_fraction_at_most
      [of "[sample_row 1 ''France'' 1 2 0 (Some 0), sample_row 2 ''Spain'' 0 1 5 (Some 1)]"
          "sample_profile ''France'' 1 2" "[10, 20, 20, 30 :: int]" 30]
    percentile_is_fraction_at_most
      [of "[sample_row 1 ''France'' 1 2 0 (Some 0), sample_row 2 ''Spain'' 0 1 5 (Some 1)]"
          "sample_profile ''France'' 1 2" "[10, 20, 20, 30 :: int]" 10]
    percentile_is_fraction_at_most
      [of "[sample_row 1 ''France'' 1 2 0 (Some 0), sample_row 2 ''Spain'' 0 1 5 (Some 1)]"
          "sample_profile ''France'' 1 2" "[10, 20, 20, 30 :: int]" 20]
  by (simp add: fraction_le_def sample_row_def sample_profile_def)

end
